theory Spec2Isabelle
  imports Main
begin

section \<open>Python strings\<close>

text \<open>
  A Python \<^verbatim>\<open>str\<close> is a sequence of Unicode code points: \<^verbatim>\<open>len\<close>, slicing and
  \<^verbatim>\<open>strip\<close> all count code points. A character is therefore a natural number (its
  code point) and a string a list of them; \<open>py\<close> reads an ASCII literal of the source.
\<close>

type_synonym pystr = "nat list"

definition py :: "string \<Rightarrow> pystr" where
  "py s = map of_char s"

text \<open>The code points for which \<^verbatim>\<open>str.isspace\<close> holds; \<^verbatim>\<open>str.strip()\<close> removes them.\<close>

definition isspace :: "nat \<Rightarrow> bool" where
  "isspace c = ((9 \<le> c \<and> c \<le> 13) \<or> (28 \<le> c \<and> c \<le> 32) \<or> c = 133 \<or> c = 160
     \<or> c = 5760 \<or> (8192 \<le> c \<and> c \<le> 8202) \<or> c = 8232 \<or> c = 8233 \<or> c = 8239
     \<or> c = 8287 \<or> c = 12288)"

definition strip :: "pystr \<Rightarrow> pystr" where
  "strip s = rev (dropWhile isspace (rev (dropWhile isspace s)))"

definition startswith :: "pystr \<Rightarrow> pystr \<Rightarrow> bool" where
  "startswith s p = (take (length p) s = p)"

text \<open>\<^verbatim>\<open>sep.join(xs)\<close>\<close>

fun join :: "pystr \<Rightarrow> pystr list \<Rightarrow> pystr" where
  "join sep [] = []"
| "join sep [x] = x"
| "join sep (x # y # ys) = x @ sep @ join sep (y # ys)"

section \<open>Exceptions\<close>

text \<open>
  Every exception the two scripts can raise is a value. \<open>FetchFailure url status\<close> is the
  \<^verbatim>\<open>Exception(f"Failed to fetch {url}. Status code: {status}")\<close> of
  \<^verbatim>\<open>Website.__init__\<close>; \<open>ValueError\<close> is the one raised by the credential check;
  \<open>RequestsError\<close> is any exception of \<^verbatim>\<open>requests.get\<close> itself, \<open>OpenAIError\<close> any
  exception of the chat completion call; the others are the Python built-ins
  (\<open>JSONDecodeError\<close> is the subclass of \<^verbatim>\<open>ValueError\<close> of the \<^verbatim>\<open>json\<close> module).
\<close>

datatype error =
    ValueError
  | RequestsError
  | FetchFailure pystr int
  | AttributeError
  | TypeError
  | KeyError pystr
  | IndexError
  | JSONDecodeError
  | RecursionError
  | OpenAIError

section \<open>The BeautifulSoup document tree\<close>

text \<open>
  The tree that \<^verbatim>\<open>BeautifulSoup(response.content, "html.parser")\<close> builds: a tag has a
  name, attributes (a \<^verbatim>\<open>dict\<close> from names to values, looked up with \<open>map_of\<close>) and
  contents; a string has its class (the subclass of
  \<^verbatim>\<open>NavigableString\<close>) and its characters. A \<open>soup\<close> is the contents of the
  \<^verbatim>\<open>BeautifulSoup\<close> object. The parser itself is not part of the model: a response
  carries the tree built from its content.
\<close>

datatype string_class =
    NavigableString | CData | Comment | Declaration | Doctype | ProcessingInstruction
  | Script | Stylesheet | TemplateString

datatype node =
    Tag pystr "(pystr \<times> pystr) list" "node list"
  | Str string_class pystr

type_synonym soup = "node list"

text \<open>\<^verbatim>\<open>.descendants\<close>: every node below, in document order (depth first).\<close>

fun descendants :: "node list \<Rightarrow> node list" where
  "descendants [] = []"
| "descendants (Str k s # rest) = Str k s # descendants rest"
| "descendants (Tag n a cs # rest) = Tag n a cs # descendants cs @ descendants rest"

fun name_in :: "pystr list \<Rightarrow> node \<Rightarrow> bool" where
  "name_in names (Tag n a cs) = (n \<in> set names)"
| "name_in names (Str k s) = False"

text \<open>\<^verbatim>\<open>tag.find_all(names)\<close>, also written \<^verbatim>\<open>tag(names)\<close>, on the contents of the tag.\<close>

definition find_all :: "pystr list \<Rightarrow> node list \<Rightarrow> node list" where
  "find_all names forest = filter (name_in names) (descendants forest)"

text \<open>\<^verbatim>\<open>soup.title\<close> and \<^verbatim>\<open>soup.body\<close> are \<^verbatim>\<open>soup.find(name)\<close>: the first such tag.\<close>

definition soup_find :: "pystr \<Rightarrow> node list \<Rightarrow> node option" where
  "soup_find nm forest = (case find_all [nm] forest of [] \<Rightarrow> None | t # _ \<Rightarrow> Some t)"

fun contents :: "node \<Rightarrow> node list" where
  "contents (Tag n a cs) = cs"
| "contents (Str k s) = []"

text \<open>
  \<^verbatim>\<open>.string\<close>: the single string child, or the \<^verbatim>\<open>.string\<close> of the single child tag;
  \<^verbatim>\<open>None\<close> when the tag has no child or more than one.
\<close>

fun tag_string :: "node \<Rightarrow> pystr option" where
  "tag_string (Str k s) = Some s"
| "tag_string (Tag n a [c]) = tag_string c"
| "tag_string (Tag n a cs) = None"

text \<open>\<^verbatim>\<open>tag.get(key)\<close>\<close>

fun get_attr :: "node \<Rightarrow> pystr \<Rightarrow> pystr option" where
  "get_attr (Tag n a cs) key = map_of a key"
| "get_attr (Str k s) key = None"

text \<open>
  The loop \<^verbatim>\<open>for irrelevant in body(names): irrelevant.decompose()\<close> over the contents
  of the body. The result set is computed before the loop and every element of it is
  detached from the tree in turn (an element nested in one already decomposed is
  detached with it), so the loop leaves the contents without any descendant tag that
  has one of the names.
\<close>

fun decompose_all :: "pystr list \<Rightarrow> node list \<Rightarrow> node list" where
  "decompose_all names [] = []"
| "decompose_all names (Str k s # rest) = Str k s # decompose_all names rest"
| "decompose_all names (Tag n a cs # rest) =
     (if n \<in> set names then decompose_all names rest
      else Tag n a (decompose_all names cs) # decompose_all names rest)"

text \<open>
  The loop mutates the tree in place: the first tag named \<open>nm\<close> of the soup is
  replaced by its image under \<open>f\<close>. \<open>None\<close> when the soup has no such tag.
\<close>

fun map_first_tag :: "pystr \<Rightarrow> (node \<Rightarrow> node) \<Rightarrow> node list \<Rightarrow> node list option" where
  "map_first_tag nm f [] = None"
| "map_first_tag nm f (Str k s # rest) = map_option (Cons (Str k s)) (map_first_tag nm f rest)"
| "map_first_tag nm f (Tag n a cs # rest) =
     (if n = nm then Some (f (Tag n a cs) # rest)
      else (case map_first_tag nm f cs of
              Some cs' \<Rightarrow> Some (Tag n a cs' # rest)
            | None \<Rightarrow> map_option (Cons (Tag n a cs)) (map_first_tag nm f rest)))"

text \<open>
  \<^verbatim>\<open>tag.get_text(separator="\n", strip=True)\<close>: the strings below the tag whose class
  is exactly \<^verbatim>\<open>NavigableString\<close> or \<^verbatim>\<open>CData\<close>, each stripped, the empty ones
  skipped, joined by the separator.
\<close>

fun interesting :: "string_class \<Rightarrow> bool" where
  "interesting NavigableString = True"
| "interesting CData = True"
| "interesting _ = False"

fun all_strings :: "node list \<Rightarrow> pystr list" where
  "all_strings [] = []"
| "all_strings (Str k s # rest) =
     (if interesting k \<and> strip s \<noteq> [] then strip s # all_strings rest else all_strings rest)"
| "all_strings (Tag n a cs # rest) = all_strings rest"

definition get_text :: "node \<Rightarrow> pystr" where
  "get_text t = join (py ''\<newline>'') (all_strings (descendants (contents t)))"

section \<open>JSON values\<close>

text \<open>
  What \<^verbatim>\<open>json.loads\<close> returns. An object is a \<^verbatim>\<open>dict\<close>: its keys in insertion order,
  looked up with \<open>map_of\<close>. A float is \<open>m * 2 ^ e\<close>, an infinity or not a number; the
  scripts never inspect one.
\<close>

datatype pyfloat = Finite int int | PosInf | NegInf | NaN

datatype json =
    JNull
  | JBool bool
  | JInt int
  | JFloat pyfloat
  | JString pystr
  | JArray "json list"
  | JObject "(pystr \<times> json) list"

text \<open>\<^verbatim>\<open>v[key]\<close> with a string key: only a dict accepts it.\<close>

fun py_getitem :: "json \<Rightarrow> pystr \<Rightarrow> error + json" where
  "py_getitem (JObject kvs) key = (case map_of kvs key of None \<Rightarrow> Inl (KeyError key) | Some v \<Rightarrow> Inr v)"
| "py_getitem _ key = Inl TypeError"

text \<open>\<^verbatim>\<open>for x in v\<close>: a list gives its items, a dict its keys, a string its characters.\<close>

fun py_iter :: "json \<Rightarrow> error + json list" where
  "py_iter (JArray xs) = Inr xs"
| "py_iter (JObject kvs) = Inr (map (\<lambda>kv. JString (fst kv)) kvs)"
| "py_iter (JString s) = Inr (map (\<lambda>c. JString [c]) s)"
| "py_iter _ = Inl TypeError"

section \<open>The environment\<close>

text \<open>
  A chat completion request: the model, the messages (role and content) and whether
  \<^verbatim>\<open>response_format={"type": "json_object"}\<close> was asked. A completion is the list of
  the contents of its choices' messages (a content may be \<^verbatim>\<open>None\<close>).
\<close>

datatype chat_request = ChatRequest pystr "(pystr \<times> pystr) list" bool

datatype chat_result = APIError | ChatCompletion "pystr option list"

datatype http_result = RequestException | Response int soup

text \<open>
  What a run does to the world, in order: a call of \<^verbatim>\<open>requests.get\<close> (one event for
  each call; the redirects the library follows inside a call are not separate events),
  a call of \<^verbatim>\<open>openai.chat.completions.create\<close>, a line printed.
\<close>

datatype event = RequestsGet pystr | ChatCreate chat_request | Print pystr

text \<open>
  The environment answers each request given everything that happened before it, so
  the same URL may be answered differently the second time. \<open>json_parser\<close> is
  \<^verbatim>\<open>json.loads\<close> on a string: the value it returns or the exception it raises (a
  \<^verbatim>\<open>JSONDecodeError\<close> for a text that is not JSON; for some JSON texts a plain
  \<^verbatim>\<open>ValueError\<close> or a \<^verbatim>\<open>RecursionError\<close>). \<open>py_repr\<close> is \<^verbatim>\<open>str()\<close> of a value that
  is not a string. Both are library functions taken as parameters.
\<close>

record env =
  network :: "event list \<Rightarrow> pystr \<Rightarrow> http_result"
  chat_service :: "event list \<Rightarrow> chat_request \<Rightarrow> chat_result"
  json_parser :: "pystr \<Rightarrow> error + json"
  py_repr :: "json \<Rightarrow> pystr"

text \<open>\<^verbatim>\<open>requests.get(url, headers=...)\<close>\<close>

definition requests_get :: "env \<Rightarrow> event list \<Rightarrow> pystr \<Rightarrow> (error + int \<times> soup) \<times> event list" where
  "requests_get e tr url =
     (case network e tr url of
        RequestException \<Rightarrow> (Inl RequestsError, tr @ [RequestsGet url])
      | Response status doc \<Rightarrow> (Inr (status, doc), tr @ [RequestsGet url]))"

text \<open>\<^verbatim>\<open>openai.chat.completions.create(...)\<close> followed by \<^verbatim>\<open>.choices[0].message.content\<close>\<close>

definition chat_content :: "env \<Rightarrow> event list \<Rightarrow> chat_request \<Rightarrow> (error + pystr option) \<times> event list" where
  "chat_content e tr req =
     (case chat_service e tr req of
        APIError \<Rightarrow> (Inl OpenAIError, tr @ [ChatCreate req])
      | ChatCompletion [] \<Rightarrow> (Inl IndexError, tr @ [ChatCreate req])
      | ChatCompletion (c # _) \<Rightarrow> (Inr c, tr @ [ChatCreate req]))"

text \<open>\<^verbatim>\<open>str(v)\<close>, as an f-string, \<^verbatim>\<open>print\<close> and \<^verbatim>\<open>requests\<close> apply it.\<close>

fun py_str :: "env \<Rightarrow> json \<Rightarrow> pystr" where
  "py_str e (JString s) = s"
| "py_str e v = py_repr e v"

text \<open>An optional string in an f-string or in \<^verbatim>\<open>print\<close>: \<^verbatim>\<open>None\<close> is written out.\<close>

fun str_opt :: "pystr option \<Rightarrow> pystr" where
  "str_opt None = py ''None''"
| "str_opt (Some s) = s"

section \<open>The page text, common to both scripts\<close>

text \<open>
  Lines 86 to 92 of \<^verbatim>\<open>04_summarizer.py\<close> and lines 80 to 85 of \<^verbatim>\<open>05_brochure_maker.py\<close>
  are the same code. It returns the text and the soup as the loop left it.
\<close>

definition irrelevant_names :: "pystr list" where
  "irrelevant_names = [py ''script'', py ''style'', py ''img'', py ''input'']"

fun decompose_irrelevant :: "node \<Rightarrow> node" where
  "decompose_irrelevant (Tag n a cs) = Tag n a (decompose_all irrelevant_names cs)"
| "decompose_irrelevant (Str k s) = Str k s"

definition extract_text :: "soup \<Rightarrow> error + soup \<times> pystr" where
  "extract_text doc =
     (case soup_find (py ''body'') doc of
        None \<Rightarrow> Inr (doc, [])
      | Some _ \<Rightarrow>
          (case map_first_tag (py ''body'') decompose_irrelevant doc of
             None \<Rightarrow> Inl AttributeError
           | Some doc' \<Rightarrow>
               (case soup_find (py ''body'') doc' of
                  None \<Rightarrow> Inl AttributeError
                | Some body \<Rightarrow> Inr (doc', get_text body))))"

section \<open>\<^verbatim>\<open>04_summarizer.py\<close>\<close>

subsection \<open>The credential check at the top of the module\<close>

definition msg_not_project_key :: pystr where
  "msg_not_project_key =
     [9888, 65039] @ py '' API key found, but it doesn'' @ [39]
       @ py ''t look like a project key (sk-proj-...)''"

definition msg_key_whitespace :: pystr where
  "msg_key_whitespace =
     [9888, 65039] @ py '' API key has spaces or tabs around it. Please remove them.''"

definition msg_key_valid :: pystr where
  "msg_key_valid = [9989] @ py '' API key found and looks valid.''"

text \<open>
  The argument is \<^verbatim>\<open>os.getenv("OPENAI_API_KEY")\<close>. The result is the \<^verbatim>\<open>ValueError\<close>
  raised or the line printed.
\<close>

definition summarizer_check_api_key :: "pystr option \<Rightarrow> error + pystr" where
  "summarizer_check_api_key api_key =
     (case api_key of
        None \<Rightarrow> Inl ValueError
      | Some k \<Rightarrow>
          if k = [] then Inl ValueError
          else if \<not> startswith k (py ''sk-proj-'') then Inr msg_not_project_key
          else if strip k \<noteq> k then Inr msg_key_whitespace
          else Inr msg_key_valid)"

subsection \<open>\<^verbatim>\<open>class Website\<close>\<close>

record website04 =
  url04 :: pystr
  title04 :: pystr
  text04 :: pystr

text \<open>\<^verbatim>\<open>soup.title.string.strip() if soup.title else "No title found"\<close>\<close>

definition summarizer_title :: "soup \<Rightarrow> error + pystr" where
  "summarizer_title doc =
     (case soup_find (py ''title'') doc of
        None \<Rightarrow> Inr (py ''No title found'')
      | Some t \<Rightarrow> (case tag_string t of None \<Rightarrow> Inl AttributeError | Some s \<Rightarrow> Inr (strip s)))"

definition summarizer_Website :: "env \<Rightarrow> event list \<Rightarrow> pystr \<Rightarrow> (error + website04) \<times> event list" where
  "summarizer_Website e tr url =
     (case requests_get e tr url of (r, tr1) \<Rightarrow>
        (case r of
           Inl err \<Rightarrow> (Inl err, tr1)
         | Inr resp \<Rightarrow>
             if fst resp \<noteq> 200 then (Inl (FetchFailure url (fst resp)), tr1)
             else
               (case summarizer_title (snd resp) of
                  Inl err \<Rightarrow> (Inl err, tr1)
                | Inr t \<Rightarrow>
                    (case extract_text (snd resp) of
                       Inl err \<Rightarrow> (Inl err, tr1)
                     | Inr dx \<Rightarrow> (Inr \<lparr>url04 = url, title04 = t, text04 = snd dx\<rparr>, tr1)))))"

subsection \<open>The prompt and the summary\<close>

definition SYSTEM_PROMPT :: pystr where
  "SYSTEM_PROMPT =
     py ''You are an assistant that analyzes the contents of a website ''
     @ py ''and provides a short summary, ignoring text that might be navigation related. ''
     @ py ''Respond in markdown.''"

definition user_prompt_for :: "website04 \<Rightarrow> pystr" where
  "user_prompt_for website =
     py ''You are looking at a website titled '' @ title04 website @ py ''\<newline>\<newline>''
     @ py ''The contents of this website are as follows; ''
     @ py ''please provide a short summary of this website in markdown. ''
     @ py ''If it includes news or announcements, then summarize these too.\<newline>\<newline>''
     @ text04 website"

definition messages_for :: "website04 \<Rightarrow> (pystr \<times> pystr) list" where
  "messages_for website =
     [(py ''system'', SYSTEM_PROMPT), (py ''user'', user_prompt_for website)]"

definition summarize :: "env \<Rightarrow> event list \<Rightarrow> pystr \<Rightarrow> (error + pystr option) \<times> event list" where
  "summarize e tr url =
     (case summarizer_Website e tr url of (r, tr1) \<Rightarrow>
        (case r of
           Inl err \<Rightarrow> (Inl err, tr1)
         | Inr website \<Rightarrow>
             chat_content e tr1 (ChatRequest (py ''gpt-4o-mini'') (messages_for website) False)))"

definition display_summary :: "env \<Rightarrow> event list \<Rightarrow> pystr \<Rightarrow> (error + unit) \<times> event list" where
  "display_summary e tr url =
     (case summarize e tr url of (r, tr1) \<Rightarrow>
        (case r of
           Inl err \<Rightarrow> (Inl err, tr1)
         | Inr summary \<Rightarrow>
             (Inr (),
              tr1 @ [Print (py ''\<newline>'' @ replicate 60 61),
                     Print (py ''Summary of '' @ url @ py '':''),
                     Print (replicate 60 61),
                     Print (str_opt summary),
                     Print (replicate 60 61 @ py ''\<newline>'')])))"

text \<open>
  A run of the script: the module's top level, then the \<^verbatim>\<open>__main__\<close> block. The
  argument is the value of the environment variable; the run starts with no event.
\<close>

definition summarizer_main :: "env \<Rightarrow> pystr option \<Rightarrow> (error + unit) \<times> event list" where
  "summarizer_main e api_key =
     (case summarizer_check_api_key api_key of
        Inl err \<Rightarrow> (Inl err, [])
      | Inr line \<Rightarrow> display_summary e [Print line] (py ''https://edwarddonner.com''))"

section \<open>\<^verbatim>\<open>05_brochure_maker.py\<close>\<close>

subsection \<open>The credential check at the top of the module\<close>

definition msg_key_good :: pystr where
  "msg_key_good = [9989] @ py '' API key looks good so far''"

definition brochure_check_api_key :: "pystr option \<Rightarrow> error + pystr" where
  "brochure_check_api_key api_key =
     (case api_key of
        None \<Rightarrow> Inl ValueError
      | Some k \<Rightarrow>
          if k \<noteq> [] \<and> startswith k (py ''sk-proj-'') \<and> length k > 10 then Inr msg_key_good
          else Inl ValueError)"

subsection \<open>\<^verbatim>\<open>class Website\<close>\<close>

text \<open>The title is \<^verbatim>\<open>soup.title.string\<close>, which may be \<^verbatim>\<open>None\<close>.\<close>

record website05 =
  url05 :: pystr
  title05 :: "pystr option"
  text05 :: pystr
  links05 :: "pystr list"

definition brochure_title :: "soup \<Rightarrow> pystr option" where
  "brochure_title doc =
     (case soup_find (py ''title'') doc of
        None \<Rightarrow> Some (py ''No title found'')
      | Some t \<Rightarrow> tag_string t)"

text \<open>
  \<^verbatim>\<open>[link.get("href") for link in soup.find_all("a")]\<close>, then
  \<^verbatim>\<open>[link for link in links if link]\<close>: \<^verbatim>\<open>None\<close> and the empty string are dropped.
\<close>

definition collect_links :: "soup \<Rightarrow> pystr list" where
  "collect_links doc =
     map the (filter (\<lambda>h. h \<noteq> None \<and> h \<noteq> Some [])
       (map (\<lambda>link. get_attr link (py ''href'')) (find_all [py ''a''] doc)))"

definition brochure_Website :: "env \<Rightarrow> event list \<Rightarrow> pystr \<Rightarrow> (error + website05) \<times> event list" where
  "brochure_Website e tr url =
     (case requests_get e tr url of (r, tr1) \<Rightarrow>
        (case r of
           Inl err \<Rightarrow> (Inl err, tr1)
         | Inr resp \<Rightarrow>
             if fst resp \<noteq> 200 then (Inl (FetchFailure url (fst resp)), tr1)
             else
               (case extract_text (snd resp) of
                  Inl err \<Rightarrow> (Inl err, tr1)
                | Inr dx \<Rightarrow>
                    (Inr \<lparr>url05 = url, title05 = brochure_title (snd resp), text05 = snd dx,
                          links05 = collect_links (fst dx)\<rparr>, tr1))))"

definition get_contents :: "website05 \<Rightarrow> pystr" where
  "get_contents website =
     py ''Webpage Title:\<newline>'' @ str_opt (title05 website)
     @ py ''\<newline>Webpage Contents:\<newline>'' @ text05 website @ py ''\<newline>\<newline>''"

subsection \<open>Selecting the relevant links\<close>

definition link_system_prompt :: pystr where
  "link_system_prompt =
     py ''You are provided with a list of links found on a webpage. ''
     @ py ''You are able to decide which of the links would be most relevant to include ''
     @ py ''in a brochure about the company, such as links to an About page, Company page, or Careers/Jobs pages.\<newline>''
     @ py ''You should respond in JSON as in this example:\<newline>''
     @ py ''{\<newline>''
     @ py ''    '' @ [34] @ py ''links'' @ [34] @ py '': [\<newline>''
     @ py ''        {'' @ [34] @ py ''type'' @ [34] @ py '': '' @ [34] @ py ''about page'' @ [34]
       @ py '', '' @ [34] @ py ''url'' @ [34] @ py '': '' @ [34]
       @ py ''https://full.url/goes/here/about'' @ [34] @ py ''},\<newline>''
     @ py ''        {'' @ [34] @ py ''type'' @ [34] @ py '': '' @ [34] @ py ''careers page'' @ [34]
       @ py '', '' @ [34] @ py ''url'' @ [34] @ py '': '' @ [34]
       @ py ''https://another.full.url/careers'' @ [34] @ py ''}\<newline>''
     @ py ''    ]\<newline>''
     @ py ''}\<newline>''"

definition get_links_user_prompt :: "website05 \<Rightarrow> pystr" where
  "get_links_user_prompt website =
     py ''Here is the list of links on the website of '' @ url05 website @ py ''. ''
     @ py ''Please decide which of these are relevant web links for a brochure about the company. ''
     @ py ''Respond with the full https URL in JSON format. ''
     @ py ''Do not include Terms of Service, Privacy, or email links.\<newline>\<newline>''
     @ py ''Links (some might be relative links):\<newline>''
     @ join (py ''\<newline>'') (links05 website)"

definition MODEL :: pystr where
  "MODEL = py ''gpt-4o-mini''"

text \<open>\<^verbatim>\<open>json.loads(result)\<close>: a \<^verbatim>\<open>TypeError\<close> when the content is \<^verbatim>\<open>None\<close>.\<close>

definition json_loads :: "env \<Rightarrow> pystr option \<Rightarrow> error + json" where
  "json_loads e content =
     (case content of
        None \<Rightarrow> Inl TypeError
      | Some s \<Rightarrow> json_parser e s)"

definition get_links :: "env \<Rightarrow> event list \<Rightarrow> pystr \<Rightarrow> (error + json) \<times> event list" where
  "get_links e tr url =
     (case brochure_Website e tr url of (r, tr1) \<Rightarrow>
        (case r of
           Inl err \<Rightarrow> (Inl err, tr1)
         | Inr website \<Rightarrow>
             (case chat_content e tr1
                     (ChatRequest MODEL
                        [(py ''system'', link_system_prompt),
                         (py ''user'', get_links_user_prompt website)] True) of
                (c, tr2) \<Rightarrow>
                  (case c of
                     Inl err \<Rightarrow> (Inl err, tr2)
                   | Inr content \<Rightarrow> (json_loads e content, tr2)))))"

subsection \<open>Gathering the pages\<close>

text \<open>
  The loop \<^verbatim>\<open>for link in links["links"]\<close> of \<^verbatim>\<open>get_all_details\<close>, with the string
  built so far.
\<close>

fun add_link_pages :: "env \<Rightarrow> event list \<Rightarrow> pystr \<Rightarrow> json list \<Rightarrow> (error + pystr) \<times> event list" where
  "add_link_pages e tr result [] = (Inr result, tr)"
| "add_link_pages e tr result (link # rest) =
     (case py_getitem link (py ''type'') of
        Inl err \<Rightarrow> (Inl err, tr)
      | Inr ty \<Rightarrow>
          (case py_getitem link (py ''url'') of
             Inl err \<Rightarrow> (Inl err, tr)
           | Inr u \<Rightarrow>
               (case brochure_Website e tr (py_str e u) of (r, tr1) \<Rightarrow>
                  (case r of
                     Inl err \<Rightarrow> (Inl err, tr1)
                   | Inr website \<Rightarrow>
                       add_link_pages e tr1
                         (result @ py ''\<newline>\<newline>'' @ py_str e ty @ py ''\<newline>''
                            @ get_contents website)
                         rest))))"

definition msg_found_links :: "env \<Rightarrow> json \<Rightarrow> pystr" where
  "msg_found_links e links = [128279] @ py '' Found relevant links: '' @ py_str e links"

definition get_all_details :: "env \<Rightarrow> event list \<Rightarrow> pystr \<Rightarrow> (error + pystr) \<times> event list" where
  "get_all_details e tr url =
     (case brochure_Website e tr url of (r, tr1) \<Rightarrow>
        (case r of
           Inl err \<Rightarrow> (Inl err, tr1)
         | Inr landing \<Rightarrow>
             (case get_links e tr1 url of (l, tr2) \<Rightarrow>
                (case l of
                   Inl err \<Rightarrow> (Inl err, tr2)
                 | Inr links \<Rightarrow>
                     (case py_getitem links (py ''links'') of
                        Inl err \<Rightarrow> (Inl err, tr2 @ [Print (msg_found_links e links)])
                      | Inr selected \<Rightarrow>
                          (case py_iter selected of
                             Inl err \<Rightarrow> (Inl err, tr2 @ [Print (msg_found_links e links)])
                           | Inr items \<Rightarrow>
                               add_link_pages e (tr2 @ [Print (msg_found_links e links)])
                                 (py ''Landing page:\<newline>'' @ get_contents landing) items))))))"

subsection \<open>The brochure\<close>

definition system_prompt :: pystr where
  "system_prompt =
     py ''You are an assistant that analyzes the contents of several relevant pages ''
     @ py ''from a company website and creates a short brochure about the company ''
     @ py ''for prospective customers, investors, and recruits. Respond in markdown. ''
     @ py ''Include details of company culture, customers, and careers/jobs if available.''"

text \<open>The prompt before \<^verbatim>\<open>user_prompt[:5_000]\<close> cuts it.\<close>

definition brochure_prompt_head :: "pystr \<Rightarrow> pystr" where
  "brochure_prompt_head company_name =
     py ''You are looking at a company called: '' @ company_name @ py ''\<newline>''
     @ py ''Here are the contents of its landing page and other relevant pages; ''
     @ py ''use this information to build a short brochure of the company in markdown.\<newline>''"

definition get_brochure_user_prompt :: "env \<Rightarrow> event list \<Rightarrow> pystr \<Rightarrow> pystr \<Rightarrow> (error + pystr) \<times> event list" where
  "get_brochure_user_prompt e tr company_name url =
     (case get_all_details e tr url of (r, tr1) \<Rightarrow>
        (case r of
           Inl err \<Rightarrow> (Inl err, tr1)
         | Inr details \<Rightarrow> (Inr (take 5000 (brochure_prompt_head company_name @ details)), tr1)))"

definition create_brochure :: "env \<Rightarrow> event list \<Rightarrow> pystr \<Rightarrow> pystr \<Rightarrow> (error + pystr option) \<times> event list" where
  "create_brochure e tr company_name url =
     (case get_brochure_user_prompt e tr company_name url of (r, tr1) \<Rightarrow>
        (case r of
           Inl err \<Rightarrow> (Inl err, tr1)
         | Inr user_prompt \<Rightarrow>
             chat_content e tr1
               (ChatRequest MODEL [(py ''system'', system_prompt), (py ''user'', user_prompt)] False)))"

definition msg_generating :: "pystr \<Rightarrow> pystr \<Rightarrow> pystr" where
  "msg_generating company_name url =
     [128196] @ py '' Generating brochure for '' @ company_name @ py '' ('' @ url
       @ py '') ...\<newline>''"

definition brochure_main :: "env \<Rightarrow> pystr option \<Rightarrow> (error + unit) \<times> event list" where
  "brochure_main e api_key =
     (case brochure_check_api_key api_key of
        Inl err \<Rightarrow> (Inl err, [])
      | Inr line \<Rightarrow>
          (case create_brochure e
                  [Print line, Print (msg_generating (py ''HuggingFace'') (py ''https://huggingface.co''))]
                  (py ''HuggingFace'') (py ''https://huggingface.co'') of
             (r, tr1) \<Rightarrow>
               (case r of
                  Inl err \<Rightarrow> (Inl err, tr1)
                | Inr brochure \<Rightarrow>
                    (Inr (),
                     tr1 @ [Print (replicate 60 61),
                            Print (py ''Brochure for HuggingFace''),
                            Print (replicate 60 61),
                            Print (str_opt brochure),
                            Print (replicate 60 61)]))))"

section \<open>What the claims speak of\<close>

text \<open>
  The strings below a list of nodes, in document order, each with the names of the
  tags it lies in (the innermost first).
\<close>

fun strings_with_ancestors :: "pystr list \<Rightarrow> node list \<Rightarrow> (pystr list \<times> string_class \<times> pystr) list" where
  "strings_with_ancestors anc [] = []"
| "strings_with_ancestors anc (Str k s # rest) = (anc, k, s) # strings_with_ancestors anc rest"
| "strings_with_ancestors anc (Tag n a cs # rest) =
     strings_with_ancestors (n # anc) cs @ strings_with_ancestors anc rest"

text \<open>
  A string is visible when none of the tags it lies in is a script, style, image or
  input element and its class is one \<^verbatim>\<open>get_text\<close> reads. The visible strings of a
  body are listed as the text has them: each stripped of the whitespace around it, the
  empty ones left out. A string is a whole text node: the line breaks and the
  whitespace inside it stay.
\<close>

definition visible :: "pystr list \<times> string_class \<times> pystr \<Rightarrow> bool" where
  "visible x = (set (fst x) \<inter> set irrelevant_names = {} \<and> interesting (fst (snd x)))"

definition visible_strings :: "node \<Rightarrow> pystr list" where
  "visible_strings body =
     filter (\<lambda>l. l \<noteq> [])
       (map (\<lambda>x. strip (snd (snd x))) (filter visible (strings_with_ancestors [] (contents body))))"

text \<open>
  The lines of a text are its pieces between newlines. The lines are trimmed when no
  line has whitespace at either end.
\<close>

fun split_on :: "nat \<Rightarrow> pystr \<Rightarrow> pystr list" where
  "split_on c [] = [[]]"
| "split_on c (x # xs) =
     (if x = c then [] # split_on c xs
      else (case split_on c xs of [] \<Rightarrow> [[x]] | l # ls \<Rightarrow> (x # l) # ls))"

definition lines_of :: "pystr \<Rightarrow> pystr list" where
  "lines_of s = split_on 10 s"

definition trimmed_lines :: "pystr \<Rightarrow> bool" where
  "trimmed_lines s = list_all (\<lambda>l. strip l = l) (lines_of s)"


text \<open>
  What \<^verbatim>\<open>html.parser\<close> builds: the content of a script or style element is raw text
  and an image or input element is void, so such a tag holds strings only.
\<close>

fun is_string :: "node \<Rightarrow> bool" where
  "is_string (Str k s) = True"
| "is_string (Tag n a cs) = False"

fun html_parser_shape :: "node list \<Rightarrow> bool" where
  "html_parser_shape [] = True"
| "html_parser_shape (Str k s # rest) = html_parser_shape rest"
| "html_parser_shape (Tag n a cs # rest) =
     ((n \<in> set irrelevant_names \<longrightarrow> list_all is_string cs)
      \<and> html_parser_shape cs \<and> html_parser_shape rest)"

text \<open>
  An anchor with a target: its \<^verbatim>\<open>href\<close> is present and not empty.
\<close>

definition has_target :: "node \<Rightarrow> bool" where
  "has_target link = (case get_attr link (py ''href'') of None \<Rightarrow> False | Some h \<Rightarrow> h \<noteq> [])"

text \<open>
  Every call of \<^verbatim>\<open>requests.get\<close> in the events \<open>ext\<close>, which follow the events
  \<open>tr\<close>, was answered with status 200.
\<close>

fun fetches_ok :: "env \<Rightarrow> event list \<Rightarrow> event list \<Rightarrow> bool" where
  "fetches_ok e tr [] = True"
| "fetches_ok e tr (RequestsGet url # rest) =
     ((case network e tr url of Response status doc \<Rightarrow> status = 200 | RequestException \<Rightarrow> False)
      \<and> fetches_ok e (tr @ [RequestsGet url]) rest)"
| "fetches_ok e tr (ev # rest) = fetches_ok e (tr @ [ev]) rest"

text \<open>
  The URLs of the calls of \<^verbatim>\<open>requests.get\<close>, in order.
\<close>

fun gets :: "event list \<Rightarrow> pystr list" where
  "gets [] = []"
| "gets (RequestsGet url # rest) = url # gets rest"
| "gets (ev # rest) = gets rest"

text \<open>
  The URL \<^verbatim>\<open>Website(link["url"])\<close> fetches for a selected link.
\<close>

definition link_url :: "env \<Rightarrow> json \<Rightarrow> pystr" where
  "link_url e link = (case py_getitem link (py ''url'') of Inl err \<Rightarrow> [] | Inr u \<Rightarrow> py_str e u)"

text \<open>
  A run from the events \<open>tr\<close>: the events only grow, and a run that returns a value
  had every fetch answered with status 200. The second component of \<open>res\<close> is the
  events after the run.
\<close>

definition run_ok :: "env \<Rightarrow> event list \<Rightarrow> (error + 'a) \<times> event list \<Rightarrow> bool" where
  "run_ok e tr res =
     (take (length tr) (snd res) = tr
      \<and> (isl (fst res) \<or> fetches_ok e tr (drop (length tr) (snd res))))"

section \<open>Example documents and environments\<close>

text \<open>
  A page titled \<open>Example\<close> whose body reads \<open>Hello\<close> and \<open>World\<close>, with a script
  between the two and no link; the service answers every request with \<open>reply\<close>.
\<close>

definition example_url :: pystr where
  "example_url = py ''https://example.com''"

definition example_body :: node where
  "example_body =
     Tag (py ''body'') []
       [Tag (py ''p'') [] [Str NavigableString (py ''Hello'')],
        Tag (py ''script'') [] [Str NavigableString (py ''track()'')],
        Tag (py ''p'') [] [Str NavigableString (py '' World '')]]"

definition example_doc :: soup where
  "example_doc =
     [Tag (py ''html'') []
        [Tag (py ''head'') [] [Tag (py ''title'') [] [Str NavigableString (py ''Example'')]],
         example_body]]"

definition example_page :: website04 where
  "example_page = \<lparr>url04 = example_url, title04 = py ''Example'', text04 = py ''Hello\<newline>World''\<rparr>"

definition example_env :: "pystr \<Rightarrow> env" where
  "example_env reply =
     \<lparr>network = (\<lambda>tr url. if url = example_url then Response 200 example_doc else Response 404 []),
      chat_service = (\<lambda>tr req. ChatCompletion [Some reply]),
      json_parser = (\<lambda>s. Inl JSONDecodeError),
      py_repr = (\<lambda>v. [])\<rparr>"

text \<open>
  A page written with indentation: the paragraph of its body is one string of two
  lines with spaces around them, after a script.
\<close>

definition indented_doc :: soup where
  "indented_doc =
     [Tag (py ''html'') []
        [Tag (py ''head'') [] [Tag (py ''title'') [] [Str NavigableString (py ''Indented'')]],
         Tag (py ''body'') []
           [Str NavigableString (py ''\<newline>''),
            Tag (py ''script'') [] [Str Script (py ''track()'')],
            Tag (py ''p'') []
              [Str NavigableString (py ''\<newline>   Some text  \<newline>   more text\<newline>'')],
            Str NavigableString (py ''\<newline>'')]]]"

definition indented_env :: env where
  "indented_env =
     \<lparr>network = (\<lambda>tr url. Response 200 indented_doc),
      chat_service = (\<lambda>tr req. ChatCompletion [Some (py ''A summary.'')]),
      json_parser = (\<lambda>s. Inl JSONDecodeError),
      py_repr = (\<lambda>v. [])\<rparr>"

text \<open>
  A page with an empty title element and no body.
\<close>

definition empty_title_doc :: soup where
  "empty_title_doc = [Tag (py ''html'') [] [Tag (py ''head'') [] [Tag (py ''title'') [] []]]]"

definition empty_title_env :: env where
  "empty_title_env =
     \<lparr>network = (\<lambda>tr url. Response 200 empty_title_doc),
      chat_service = (\<lambda>tr req. ChatCompletion [Some (py ''A summary.'')]),
      json_parser = (\<lambda>s. Inl JSONDecodeError),
      py_repr = (\<lambda>v. [])\<rparr>"

text \<open>
  A company site: the landing page has five anchors (two to the same relative URL,
  one without target, one with an empty target), the about page exists, every other
  URL is answered with status 404. The service answers a request for JSON with
  \<open>reply\<close>. The parser knows the two replies of the expected shape and the empty
  array, refuses a number of 5001 digits with \<^verbatim>\<open>ValueError\<close> as Python does, and takes
  anything else as not JSON.
\<close>

definition acme_url :: pystr where
  "acme_url = py ''https://acme.example''"

definition about_url :: pystr where
  "about_url = py ''https://acme.example/about''"

definition careers_url :: pystr where
  "careers_url = py ''https://acme.example/careers''"

definition acme_doc :: soup where
  "acme_doc =
     [Tag (py ''html'') []
        [Tag (py ''head'') [] [Tag (py ''title'') [] [Str NavigableString (py ''Acme'')]],
         Tag (py ''body'') []
           [Tag (py ''a'') [(py ''href'', py ''/about'')] [Str NavigableString (py ''About'')],
            Tag (py ''a'') [(py ''href'', py ''/about'')]
              [Tag (py ''img'') [(py ''src'', py ''logo.png'')] []],
            Tag (py ''a'') [(py ''name'', py ''top'')] [Str NavigableString (py ''Top'')],
            Tag (py ''a'') [(py ''href'', [])] [Str NavigableString (py ''Nowhere'')],
            Tag (py ''a'') [(py ''href'', careers_url)] [Str NavigableString (py ''Jobs'')]]]]"

definition about_doc :: soup where
  "about_doc =
     [Tag (py ''html'') []
        [Tag (py ''head'') [] [Tag (py ''title'') [] [Str NavigableString (py ''About'')]],
         Tag (py ''body'') [] [Tag (py ''p'') [] [Str NavigableString (py ''We make anvils.'')]]]]"

definition acme_page :: website05 where
  "acme_page =
     \<lparr>url05 = acme_url, title05 = Some (py ''Acme''),
      text05 = py ''About\<newline>Top\<newline>Nowhere\<newline>Jobs'',
      links05 = [py ''/about'', py ''/about'', careers_url]\<rparr>"

definition about_page :: website05 where
  "about_page =
     \<lparr>url05 = about_url, title05 = Some (py ''About''), text05 = py ''We make anvils.'',
      links05 = []\<rparr>"

definition dq :: "string \<Rightarrow> pystr" where
  "dq s = [34] @ py s @ [34]"

definition reply_about :: pystr where
  "reply_about =
     py ''{'' @ dq ''links'' @ py '': [{'' @ dq ''type'' @ py '': '' @ dq ''about page'' @ py '', ''
       @ dq ''url'' @ py '': '' @ dq ''https://acme.example/about'' @ py ''}]}''"

definition reply_careers_about :: pystr where
  "reply_careers_about =
     py ''{'' @ dq ''links'' @ py '': [{'' @ dq ''type'' @ py '': '' @ dq ''careers page'' @ py '', ''
       @ dq ''url'' @ py '': '' @ dq ''https://acme.example/careers'' @ py ''}, {''
       @ dq ''type'' @ py '': '' @ dq ''about page'' @ py '', ''
       @ dq ''url'' @ py '': '' @ dq ''https://acme.example/about'' @ py ''}]}''"

definition about_link :: json where
  "about_link = JObject [(py ''type'', JString (py ''about page'')), (py ''url'', JString about_url)]"

definition careers_link :: json where
  "careers_link = JObject [(py ''type'', JString (py ''careers page'')), (py ''url'', JString careers_url)]"

definition acme_json_parser :: "pystr \<Rightarrow> error + json" where
  "acme_json_parser s =
     (if s = reply_about then Inr (JObject [(py ''links'', JArray [about_link])])
      else if s = reply_careers_about then Inr (JObject [(py ''links'', JArray [careers_link, about_link])])
      else if s = py ''[]'' then Inr (JArray [])
      else if s = 49 # replicate 5000 48 then Inl ValueError
      else Inl JSONDecodeError)"

definition acme_env :: "pystr \<Rightarrow> env" where
  "acme_env reply =
     \<lparr>network = (\<lambda>tr url. if url = acme_url then Response 200 acme_doc
                           else if url = about_url then Response 200 about_doc
                           else Response 404 []),
      chat_service = (\<lambda>tr req. case req of ChatRequest m msgs as_json \<Rightarrow>
                         if as_json then ChatCompletion [Some reply]
                         else ChatCompletion [Some (py ''# Acme'')]),
      json_parser = acme_json_parser,
      py_repr = (\<lambda>v. py ''{...}'')\<rparr>"


definition acme_links_request :: chat_request where
  "acme_links_request =
     ChatRequest MODEL [(py ''system'', link_system_prompt),
                        (py ''user'', get_links_user_prompt acme_page)] True"

section \<open>Facts about the document tree\<close>

lemma soup_find_Nil: "soup_find nm [] = None"
  by (simp add: soup_find_def find_all_def)

lemma soup_find_Str: "soup_find nm (Str k s # rest) = soup_find nm rest"
  by (simp add: soup_find_def find_all_def)

lemma soup_find_Tag:
  "soup_find nm (Tag n a cs # rest) =
     (if n = nm then Some (Tag n a cs)
      else (case soup_find nm cs of Some t \<Rightarrow> Some t | None \<Rightarrow> soup_find nm rest))"
  by (simp add: soup_find_def find_all_def split: list.splits)

lemmas soup_find_simps = soup_find_Nil soup_find_Str soup_find_Tag

lemma map_first_tag_None: "map_first_tag nm f doc = None \<longleftrightarrow> soup_find nm doc = None"
  by (induction nm f doc rule: map_first_tag.induct)
     (auto simp: soup_find_simps split: option.splits)

text \<open>
  After the loop, \<^verbatim>\<open>soup.body\<close> is the body the loop worked on.
\<close>

lemma soup_find_map_first_tag:
  "\<forall>n a cs. \<exists>cs'. f (Tag n a cs) = Tag n a cs' \<Longrightarrow> map_first_tag nm f doc = Some doc'
     \<Longrightarrow> soup_find nm doc' = map_option f (soup_find nm doc)"
proof (induction nm f doc arbitrary: doc' rule: map_first_tag.induct)
  case (1 nm f)
  then show ?case by simp
next
  case (2 nm f k s rest)
  then show ?case by (auto simp: soup_find_simps)
next
  case (3 nm f n a cs rest)
  show ?case
  proof (cases "n = nm")
    case True
    obtain cs' where "f (Tag n a cs) = Tag n a cs'" using 3(3) by blast
    with True 3(4) show ?thesis by (auto simp: soup_find_simps)
  next
    case False
    show ?thesis
    proof (cases "map_first_tag nm f cs")
      case None
      with False 3 show ?thesis
        by (auto simp: soup_find_simps map_first_tag_None)
    next
      case (Some cs')
      then have "soup_find nm cs \<noteq> None" using map_first_tag_None [of nm f cs] by simp
      moreover have "soup_find nm cs' = map_option f (soup_find nm cs)"
        using 3(1) [OF False 3(3) Some] .
      ultimately show ?thesis using False Some 3(4)
        by (auto simp: soup_find_simps split: option.splits)
    qed
  qed
qed

lemma decompose_irrelevant_Tag: "\<forall>n a cs. \<exists>cs'. decompose_irrelevant (Tag n a cs) = Tag n a cs'"
  by simp

lemma extract_text_no_body:
  "soup_find (py ''body'') doc = None \<Longrightarrow> extract_text doc = Inr (doc, [])"
  by (simp add: extract_text_def)

lemma extract_text_body:
  assumes "soup_find (py ''body'') doc = Some b"
  shows "\<exists>doc'. map_first_tag (py ''body'') decompose_irrelevant doc = Some doc'
           \<and> extract_text doc = Inr (doc', get_text (decompose_irrelevant b))"
proof -
  from assms obtain doc' where m: "map_first_tag (py ''body'') decompose_irrelevant doc = Some doc'"
    using map_first_tag_None [of "py ''body''" decompose_irrelevant doc] by (cases "map_first_tag (py ''body'') decompose_irrelevant doc") auto
  from soup_find_map_first_tag [OF decompose_irrelevant_Tag m] assms
  have "soup_find (py ''body'') doc' = Some (decompose_irrelevant b)" by simp
  with m assms show ?thesis by (simp add: extract_text_def)
qed

lemma extract_text_total: "\<exists>dx. extract_text doc = Inr dx"
proof (cases "soup_find (py ''body'') doc")
  case None
  then show ?thesis by (simp add: extract_text_no_body)
next
  case (Some b)
  from extract_text_body [OF this] show ?thesis by blast
qed

lemma all_strings_append: "all_strings (xs @ ys) = all_strings xs @ all_strings ys"
  by (induction xs rule: all_strings.induct) auto

lemma ancestors_grow:
  "x \<in> set (strings_with_ancestors anc forest) \<Longrightarrow> set anc \<subseteq> set (fst x)"
  by (induction anc forest rule: strings_with_ancestors.induct) auto

lemma hidden_below_irrelevant:
  assumes "set anc \<inter> set irrelevant_names \<noteq> {}"
  shows "filter visible (strings_with_ancestors anc forest) = []"
proof -
  have "\<not> visible x" if "x \<in> set (strings_with_ancestors anc forest)" for x
    using ancestors_grow [OF that] assms by (auto simp: visible_def)
  then show ?thesis by (simp add: filter_empty_conv)
qed

lemma all_strings_decompose:
  "set anc \<inter> set irrelevant_names = {} \<Longrightarrow>
   all_strings (descendants (decompose_all irrelevant_names forest)) =
     filter (\<lambda>l. l \<noteq> [])
       (map (\<lambda>x. strip (snd (snd x))) (filter visible (strings_with_ancestors anc forest)))"
proof (induction anc forest rule: strings_with_ancestors.induct)
  case (1 anc)
  then show ?case by simp
next
  case (2 anc k s rest)
  then show ?case by (simp add: visible_def)
next
  case (3 anc n a cs rest)
  show ?case
  proof (cases "n \<in> set irrelevant_names")
    case True
    then have "set (n # anc) \<inter> set irrelevant_names \<noteq> {}" by auto
    from hidden_below_irrelevant [OF this] True 3 show ?thesis by simp
  next
    case False
    with 3(3) have "set (n # anc) \<inter> set irrelevant_names = {}" by auto
    with False 3 show ?thesis by (simp add: all_strings_append)
  qed
qed

lemma get_text_decompose:
  "get_text (decompose_irrelevant b) = join (py ''\<newline>'') (visible_strings b)"
  by (cases b) (simp_all add: get_text_def visible_strings_def all_strings_decompose [of "[]"])

lemma find_all_Nil: "find_all names [] = []"
  by (simp add: find_all_def)

lemma find_all_Str: "find_all names (Str k s # rest) = find_all names rest"
  by (simp add: find_all_def)

lemma find_all_Tag:
  "find_all names (Tag n a cs # rest) =
     (if n \<in> set names then [Tag n a cs] else []) @ find_all names cs @ find_all names rest"
  by (simp add: find_all_def)

lemmas find_all_simps = find_all_Nil find_all_Str find_all_Tag

lemma find_all_strings: "list_all is_string cs \<Longrightarrow> find_all names cs = []"
  by (induction cs rule: descendants.induct) (auto simp: find_all_simps)

lemma attrs_decompose_all:
  "html_parser_shape forest \<Longrightarrow> nm \<notin> set irrelevant_names \<Longrightarrow>
   map (\<lambda>t. get_attr t key) (find_all [nm] (decompose_all irrelevant_names forest)) =
   map (\<lambda>t. get_attr t key) (find_all [nm] forest)"
  by (induction forest rule: html_parser_shape.induct)
     (auto simp: find_all_simps find_all_strings)

lemma attrs_map_first_tag:
  "html_parser_shape doc \<Longrightarrow> nm \<notin> set irrelevant_names \<Longrightarrow>
   map_first_tag b decompose_irrelevant doc = Some doc' \<Longrightarrow>
   map (\<lambda>t. get_attr t key) (find_all [nm] doc') = map (\<lambda>t. get_attr t key) (find_all [nm] doc)"
proof (induction doc arbitrary: doc' rule: html_parser_shape.induct)
  case 1
  then show ?case by simp
next
  case (2 k s rest)
  then show ?case by (auto simp: find_all_simps)
next
  case (3 n a cs rest)
  show ?case
  proof (cases "n = b")
    case True
    with 3 show ?thesis
      by (auto simp: find_all_simps attrs_decompose_all)
  next
    case False
    with 3 show ?thesis
      by (auto simp: find_all_simps split: option.splits)
  qed
qed

lemma a_not_irrelevant: "py ''a'' \<notin> set irrelevant_names"
  by (simp add: irrelevant_names_def py_def)

lemma collect_links_filter:
  "collect_links doc = map (\<lambda>l. the (get_attr l (py ''href''))) (filter has_target (find_all [py ''a''] doc))"
proof -
  have "map the (filter (\<lambda>h. h \<noteq> None \<and> h \<noteq> Some []) (map f xs)) =
        map (\<lambda>l. the (f l)) (filter (\<lambda>l. case f l of None \<Rightarrow> False | Some h \<Rightarrow> h \<noteq> []) xs)"
    for f :: "node \<Rightarrow> pystr option" and xs
    by (induction xs) (auto split: option.splits)
  then show ?thesis by (simp add: collect_links_def has_target_def [abs_def])
qed

lemma collect_links_attrs:
  assumes "map (\<lambda>t. get_attr t (py ''href'')) (find_all [py ''a''] doc')
         = map (\<lambda>t. get_attr t (py ''href'')) (find_all [py ''a''] doc)"
  shows "collect_links doc' = collect_links doc"
  using assms by (simp add: collect_links_def)

section \<open>Facts about \<^verbatim>\<open>Website\<close>\<close>

lemma brochure_Website_trace:
  "brochure_Website e tr url = (r, tr') \<Longrightarrow> tr' = tr @ [RequestsGet url]"
  by (auto simp: brochure_Website_def requests_get_def split: http_result.splits sum.splits if_splits)

lemma brochure_Website_Inr:
  "brochure_Website e tr url = (Inr w, tr') \<Longrightarrow> \<exists>doc. network e tr url = Response 200 doc"
  by (auto simp: brochure_Website_def requests_get_def split: http_result.splits sum.splits if_splits)

lemma summarizer_Website_trace:
  "summarizer_Website e tr url = (r, tr') \<Longrightarrow> tr' = tr @ [RequestsGet url]"
  by (auto simp: summarizer_Website_def requests_get_def split: http_result.splits sum.splits if_splits)

lemma brochure_Website_200:
  assumes "network e tr url = Response 200 doc"
  shows "brochure_Website e tr url =
           (Inr \<lparr>url05 = url, title05 = brochure_title doc, text05 = snd (projr (extract_text doc)),
                  links05 = collect_links (fst (projr (extract_text doc)))\<rparr>,
            tr @ [RequestsGet url])"
proof -
  obtain dx where "extract_text doc = Inr dx" using extract_text_total by blast
  with assms show ?thesis by (simp add: brochure_Website_def requests_get_def)
qed

lemma summarizer_Website_200:
  assumes "network e tr url = Response 200 doc"
  shows "summarizer_Website e tr url =
           ((case summarizer_title doc of
               Inl err \<Rightarrow> Inl err
             | Inr t \<Rightarrow> Inr \<lparr>url04 = url, title04 = t, text04 = snd (projr (extract_text doc))\<rparr>),
            tr @ [RequestsGet url])"
proof -
  obtain dx where "extract_text doc = Inr dx" using extract_text_total by blast
  with assms show ?thesis by (simp add: summarizer_Website_def requests_get_def split: sum.splits)
qed

text \<open>
  A document without a body: the text is empty, and the title and the links are read
  from the whole document. The summarizer fails only where the title cannot be read.
\<close>

lemma no_body_text_empty:
  assumes "network e tr url = Response 200 doc"
    and "soup_find (py ''body'') doc = None"
  shows "brochure_Website e tr url =
           (Inr \<lparr>url05 = url, title05 = brochure_title doc, text05 = [], links05 = collect_links doc\<rparr>,
            tr @ [RequestsGet url])"
    and "summarizer_Website e tr url =
           ((case summarizer_title doc of
               Inl err \<Rightarrow> Inl err
             | Inr t \<Rightarrow> Inr \<lparr>url04 = url, title04 = t, text04 = []\<rparr>),
            tr @ [RequestsGet url])"
  using assms brochure_Website_200 [OF assms(1)] summarizer_Website_200 [OF assms(1)]
  by (simp_all add: extract_text_no_body split: sum.splits)

section \<open>Facts about the events of a run\<close>

lemma fetches_ok_append:
  "fetches_ok e tr (xs @ ys) = (fetches_ok e tr xs \<and> fetches_ok e (tr @ xs) ys)"
  by (induction e tr xs rule: fetches_ok.induct) auto

lemma gets_append: "gets (xs @ ys) = gets xs @ gets ys"
  by (induction xs rule: gets.induct) auto

lemma run_ok_iff:
  "run_ok e tr res = (\<exists>ext. snd res = tr @ ext \<and> (isl (fst res) \<or> fetches_ok e tr ext))"
proof
  assume r: "run_ok e tr res"
  then have "snd res = tr @ drop (length tr) (snd res)"
    by (metis append_take_drop_id run_ok_def)
  with r show "\<exists>ext. snd res = tr @ ext \<and> (isl (fst res) \<or> fetches_ok e tr ext)"
    unfolding run_ok_def by blast
next
  assume "\<exists>ext. snd res = tr @ ext \<and> (isl (fst res) \<or> fetches_ok e tr ext)"
  then show "run_ok e tr res" by (auto simp: run_ok_def)
qed

lemma run_ok_brochure_Website: "run_ok e tr (brochure_Website e tr url)"
  by (auto simp: run_ok_iff brochure_Website_def requests_get_def
      split: http_result.splits sum.splits if_splits)

lemma chat_content_trace: "snd (chat_content e tr req) = tr @ [ChatCreate req]"
  by (auto simp: chat_content_def split: chat_result.splits list.splits)

lemma run_ok_get_links: "run_ok e tr (get_links e tr url)"
proof (cases "brochure_Website e tr url")
  case (Pair r tr1)
  from run_ok_brochure_Website [of e tr url] Pair
  obtain ext where ext: "tr1 = tr @ ext" "isl r \<or> fetches_ok e tr ext"
    by (auto simp: run_ok_iff)
  show ?thesis
  proof (cases r)
    case (Inl err)
    with Pair ext show ?thesis by (auto simp: run_ok_iff get_links_def)
  next
    case (Inr website)
    obtain c tr2 where c: "chat_content e tr1
                     (ChatRequest MODEL
                        [(py ''system'', link_system_prompt),
                         (py ''user'', get_links_user_prompt website)] True) = (c, tr2)"
      by (cases "chat_content e tr1
                     (ChatRequest MODEL
                        [(py ''system'', link_system_prompt),
                         (py ''user'', get_links_user_prompt website)] True)")
    with chat_content_trace [of e tr1] have "tr2 = tr1 @ [ChatCreate (ChatRequest MODEL
                        [(py ''system'', link_system_prompt),
                         (py ''user'', get_links_user_prompt website)] True)]"
      by (metis snd_conv)
    with Pair Inr ext c show ?thesis
      by (auto simp: run_ok_iff get_links_def fetches_ok_append split: sum.splits)
  qed
qed

lemma run_ok_add_link_pages: "run_ok e tr (add_link_pages e tr result items)"
proof (induction e tr result items rule: add_link_pages.induct)
  case (1 e tr result)
  then show ?case by (simp add: run_ok_iff)
next
  case (2 e tr result link rest)
  show ?case
  proof (cases "py_getitem link (py ''type'')")
    case (Inl err)
    then show ?thesis by (simp add: run_ok_iff)
  next
    case ty: (Inr ty)
    show ?thesis
    proof (cases "py_getitem link (py ''url'')")
      case (Inl err)
      with ty show ?thesis by (simp add: run_ok_iff)
    next
      case u: (Inr u)
      show ?thesis
      proof (cases "brochure_Website e tr (py_str e u)")
        case (Pair r tr1)
        from run_ok_brochure_Website [of e tr "py_str e u"] Pair
        obtain ext where ext: "tr1 = tr @ ext" "isl r \<or> fetches_ok e tr ext"
          by (auto simp: run_ok_iff)
        show ?thesis
        proof (cases r)
          case (Inl err)
          with ty u Pair ext show ?thesis by (auto simp: run_ok_iff)
        next
          case (Inr website)
          from 2 [OF ty u Pair [symmetric] Inr] ty u Pair Inr ext
          show ?thesis
            by (auto simp: run_ok_iff fetches_ok_append)
        qed
      qed
    qed
  qed
qed

lemma run_ok_then: "run_ok e tr (Inr x, tr1) \<Longrightarrow> run_ok e tr1 res \<Longrightarrow> run_ok e tr res"
  by (auto simp: run_ok_iff fetches_ok_append)

lemma run_ok_Inl: "run_ok e tr (r, tr1) \<Longrightarrow> run_ok e tr (Inl err, tr1 @ ext)"
  by (auto simp: run_ok_iff)

lemma run_ok_Print: "run_ok e tr (Inr x, tr1) \<Longrightarrow> run_ok e tr (Inr y, tr1 @ [Print m])"
  by (auto simp: run_ok_iff fetches_ok_append)

lemma run_ok_get_all_details: "run_ok e tr (get_all_details e tr url)"
proof (cases "brochure_Website e tr url")
  case w: (Pair r tr1)
  have r1: "run_ok e tr (r, tr1)" using run_ok_brochure_Website [of e tr url] w by simp
  show ?thesis
  proof (cases r)
    case (Inl err)
    with w run_ok_Inl [OF r1, of err "[]"] show ?thesis by (simp add: get_all_details_def)
  next
    case landing: (Inr landing)
    show ?thesis
    proof (cases "get_links e tr1 url")
      case g: (Pair l tr2)
      have r2: "run_ok e tr1 (l, tr2)" using run_ok_get_links [of e tr1 url] g by simp
      show ?thesis
      proof (cases l)
        case (Inl err)
        with r1 r2 landing have "run_ok e tr (l, tr2)" by (auto intro: run_ok_then)
        from run_ok_Inl [OF this, of err "[]"] w landing g Inl
        show ?thesis by (simp add: get_all_details_def)
      next
        case links: (Inr links)
        with r1 r2 landing have r3: "run_ok e tr (Inr links, tr2)" by (auto intro: run_ok_then)
        then have r4: "run_ok e tr (Inr (), tr2 @ [Print (msg_found_links e links)])"
          by (rule run_ok_Print)
        have fail: "run_ok e tr (Inl err, tr2 @ [Print (msg_found_links e links)])" for err :: error
          using r3 by (rule run_ok_Inl)
        show ?thesis
        proof (cases "py_getitem links (py ''links'')")
          case (Inl err)
          with w landing g links fail show ?thesis by (simp add: get_all_details_def)
        next
          case sel: (Inr selected)
          show ?thesis
          proof (cases "py_iter selected")
            case (Inl err)
            with w landing g links sel fail show ?thesis by (simp add: get_all_details_def)
          next
            case (Inr items)
            with w landing g links sel
              run_ok_then [OF r4 run_ok_add_link_pages
                [of e "tr2 @ [Print (msg_found_links e links)]"
                    "py ''Landing page:\<newline>'' @ get_contents landing" items]]
            show ?thesis by (simp add: get_all_details_def)
          qed
        qed
      qed
    qed
  qed
qed

lemma get_links_trace:
  assumes "get_links e tr url = (Inr v, tr2)"
  shows "\<exists>req. tr2 = tr @ [RequestsGet url, ChatCreate req]"
proof -
  obtain r tr1 where w: "brochure_Website e tr url = (r, tr1)" by (cases "brochure_Website e tr url")
  then have tr1: "tr1 = tr @ [RequestsGet url]" by (rule brochure_Website_trace)
  from assms w obtain website where r: "r = Inr website"
    by (cases r) (auto simp: get_links_def)
  let ?req = "ChatRequest MODEL [(py ''system'', link_system_prompt),
                                  (py ''user'', get_links_user_prompt website)] True"
  from assms w r have "tr2 = snd (chat_content e tr1 ?req)"
    by (auto simp: get_links_def split: prod.splits sum.splits)
  with tr1 show ?thesis by (simp add: chat_content_trace)
qed

lemma add_link_pages_gets:
  "add_link_pages e tr result items = (Inr doc, tr') \<Longrightarrow>
   \<exists>ext. tr' = tr @ ext \<and> gets ext = map (link_url e) items"
proof (induction e tr result items arbitrary: doc tr' rule: add_link_pages.induct)
  case (1 e tr result)
  then show ?case by simp
next
  case (2 e tr result link rest)
  from 2(2) obtain ty where ty: "py_getitem link (py ''type'') = Inr ty"
    by (cases "py_getitem link (py ''type'')") auto
  from 2(2) ty obtain u where u: "py_getitem link (py ''url'') = Inr u"
    by (cases "py_getitem link (py ''url'')") auto
  obtain r tr1 where w: "brochure_Website e tr (py_str e u) = (r, tr1)"
    by (cases "brochure_Website e tr (py_str e u)")
  then have tr1: "tr1 = tr @ [RequestsGet (py_str e u)]" by (rule brochure_Website_trace)
  from 2(2) ty u w obtain website where r: "r = Inr website" by (cases r) auto
  from 2(2) ty u w r
  have "add_link_pages e tr1
          (result @ py ''\<newline>\<newline>'' @ py_str e ty @ py ''\<newline>'' @ get_contents website) rest
        = (Inr doc, tr')" by simp
  from 2(1) [OF ty u w [symmetric] r this]
  obtain ext where "tr' = tr1 @ ext" "gets ext = map (link_url e) rest" by blast
  with tr1 u show ?case by (auto simp: link_url_def)
qed

section \<open>The example runs\<close>

lemmas page_eval =
  summarizer_Website_def brochure_Website_def requests_get_def summarizer_title_def
  brochure_title_def soup_find_def find_all_def extract_text_def irrelevant_names_def
  get_text_def strip_def isspace_def py_def collect_links_def

lemmas acme_defs =
  acme_env_def acme_url_def about_url_def careers_url_def acme_doc_def about_doc_def
  acme_page_def about_page_def

lemma example_Website:
  "summarizer_Website (example_env reply) tr example_url =
     (Inr example_page, tr @ [RequestsGet example_url])"
  by (simp add: page_eval example_env_def example_url_def example_doc_def example_body_def
      example_page_def)

lemma example_brochure_Website:
  "brochure_Website (example_env reply) tr example_url =
     (Inr \<lparr>url05 = example_url, title05 = Some (py ''Example''),
            text05 = py ''Hello\<newline>World'', links05 = []\<rparr>,
      tr @ [RequestsGet example_url])"
  by (simp add: page_eval example_env_def example_url_def example_doc_def example_body_def)

lemma acme_Website:
  "brochure_Website (acme_env reply) tr acme_url = (Inr acme_page, tr @ [RequestsGet acme_url])"
  by (simp add: page_eval acme_defs)

lemma about_Website:
  "brochure_Website (acme_env reply) tr about_url = (Inr about_page, tr @ [RequestsGet about_url])"
  by (simp add: page_eval acme_defs)

lemma careers_Website:
  "brochure_Website (acme_env reply) tr careers_url =
     (Inl (FetchFailure careers_url 404), tr @ [RequestsGet careers_url])"
  by (simp add: page_eval acme_defs)

lemma acme_chat:
  "chat_service (acme_env reply) tr acme_links_request = ChatCompletion [Some reply]"
  by (simp add: acme_env_def acme_links_request_def)

lemma acme_get_links:
  "get_links (acme_env reply) tr acme_url =
     (acme_json_parser reply, tr @ [RequestsGet acme_url, ChatCreate acme_links_request])"
  using acme_chat [of reply "tr @ [RequestsGet acme_url]"]
  by (simp add: get_links_def acme_Website chat_content_def json_loads_def
      acme_links_request_def [symmetric]) (simp add: acme_env_def)

lemma parse_reply_about:
  "acme_json_parser reply_about = Inr (JObject [(py ''links'', JArray [about_link])])"
  by (simp add: acme_json_parser_def)

lemma parse_reply_careers_about:
  "acme_json_parser reply_careers_about =
     Inr (JObject [(py ''links'', JArray [careers_link, about_link])])"
  by (simp add: acme_json_parser_def reply_about_def reply_careers_about_def dq_def py_def)





lemma indented_Website:
  "summarizer_Website indented_env tr example_url =
     (Inr \<lparr>url04 = example_url, title04 = py ''Indented'',
            text04 = py ''Some text  \<newline>   more text''\<rparr>,
      tr @ [RequestsGet example_url])"
  by (simp add: page_eval indented_env_def indented_doc_def)

lemma indented_brochure_Website:
  "brochure_Website indented_env tr example_url =
     (Inr \<lparr>url05 = example_url, title05 = Some (py ''Indented''),
            text05 = py ''Some text  \<newline>   more text'', links05 = []\<rparr>,
      tr @ [RequestsGet example_url])"
  by (simp add: page_eval indented_env_def indented_doc_def)

lemma link_items:
  "py_getitem about_link (py ''type'') = Inr (JString (py ''about page''))"
  "py_getitem about_link (py ''url'') = Inr (JString about_url)"
  "py_getitem careers_link (py ''type'') = Inr (JString (py ''careers page''))"
  "py_getitem careers_link (py ''url'') = Inr (JString careers_url)"
  by (simp_all add: about_link_def careers_link_def py_def)

lemma links_key: "py_getitem (JObject [(py ''links'', v)]) (py ''links'') = Inr v"
  by simp

lemma acme_details_about:
  "get_all_details (acme_env reply_about) [] acme_url =
     (Inr (py ''Landing page:\<newline>'' @ get_contents acme_page
           @ py ''\<newline>\<newline>'' @ py ''about page'' @ py ''\<newline>'' @ get_contents about_page),
      [RequestsGet acme_url, RequestsGet acme_url, ChatCreate acme_links_request,
       Print (msg_found_links (acme_env reply_about) (JObject [(py ''links'', JArray [about_link])])),
       RequestsGet about_url])"
  by (simp add: get_all_details_def acme_Website acme_get_links parse_reply_about links_key
      link_items about_Website)

lemma acme_details_careers_about:
  "get_all_details (acme_env reply_careers_about) [] acme_url =
     (Inl (FetchFailure careers_url 404),
      [RequestsGet acme_url, RequestsGet acme_url, ChatCreate acme_links_request,
       Print (msg_found_links (acme_env reply_careers_about)
                (JObject [(py ''links'', JArray [careers_link, about_link])])),
       RequestsGet careers_url])"
  by (simp add: get_all_details_def acme_Website acme_get_links parse_reply_careers_about links_key
      link_items careers_Website)

section \<open>The claims\<close>

subsection \<open>C1: a response that is not a success\<close>

text \<open>
  Claim C1. In both scripts, when the response to the GET has a status other than 200,
  \<^verbatim>\<open>Website(url)\<close> raises the fetch failure for that URL and status, after this one
  request. The result is the exception alone: no page, hence no title, text or link,
  is returned. A status is a success for the scripts only when it is 200, so every
  status that is not a success is covered.
\<close>

theorem fetch_failure:
  assumes "network e tr url = Response status doc" and "status \<noteq> 200"
  shows "summarizer_Website e tr url = (Inl (FetchFailure url status), tr @ [RequestsGet url])
       \<and> brochure_Website e tr url = (Inl (FetchFailure url status), tr @ [RequestsGet url])"
  using assms by (simp add: summarizer_Website_def brochure_Website_def requests_get_def)

text \<open>
  The site answers the careers URL with status 404: both constructors fail with that
  fetch failure.
\<close>

theorem fetch_failure_witness:
  "network (acme_env reply_about) [] careers_url = Response 404 []
   \<and> summarizer_Website (acme_env reply_about) [] careers_url
       = (Inl (FetchFailure careers_url 404), [RequestsGet careers_url])
   \<and> brochure_Website (acme_env reply_about) [] careers_url
       = (Inl (FetchFailure careers_url 404), [RequestsGet careers_url])"
proof -
  have h: "network (acme_env reply_about) [] careers_url = Response 404 []"
    by (simp add: acme_defs py_def)
  from fetch_failure [OF h] h show ?thesis by simp
qed

subsection \<open>C2: the prompt is cut at 5000 characters\<close>



subsection \<open>C3: the text of the body\<close>

text \<open>
  Claim C3, as the code has it. For a page fetched with status 200 that has a body, in
  both scripts the text of the page is made of the visible strings of the body joined
  with newlines: the text nodes of the body in document order, each stripped of the
  whitespace around it, the empty ones left out. A string that lies in a script,
  style, image or input element of the body is not visible, so nothing of the content
  of such an element goes into the text. The line breaks and the whitespace inside a
  text node are kept.
\<close>

theorem body_text_skips_irrelevant:
  assumes "network e tr url = Response 200 doc"
    and "soup_find (py ''body'') doc = Some body"
  shows "(summarizer_Website e tr url = (Inr w4, tr4) \<longrightarrow>
            text04 w4 = join (py ''\<newline>'') (visible_strings body))
       \<and> (brochure_Website e tr url = (Inr w5, tr5) \<longrightarrow>
            text05 w5 = join (py ''\<newline>'') (visible_strings body))"
proof -
  from extract_text_body [OF assms(2)]
  have "snd (projr (extract_text doc)) = join (py ''\<newline>'') (visible_strings body)"
    by (auto simp: get_text_decompose)
  then show ?thesis
    using summarizer_Website_200 [OF assms(1)] brochure_Website_200 [OF assms(1)]
    by (auto split: sum.splits)
qed

text \<open>
  The example body holds \<open>Hello\<close>, a script with \<open>track()\<close> and \<open>World\<close> between
  spaces: the text is \<open>Hello\<close>, a newline, \<open>World\<close> in both scripts.
\<close>

theorem body_text_skips_irrelevant_witness:
  "network (example_env []) [] example_url = Response 200 example_doc
   \<and> soup_find (py ''body'') example_doc = Some example_body
   \<and> strings_with_ancestors [] (contents example_body)
       = [([py ''p''], NavigableString, py ''Hello''),
          ([py ''script''], NavigableString, py ''track()''),
          ([py ''p''], NavigableString, py '' World '')]
   \<and> visible_strings example_body = [py ''Hello'', py ''World'']
   \<and> summarizer_Website (example_env []) [] example_url
       = (Inr example_page, [RequestsGet example_url])
   \<and> text04 example_page = py ''Hello\<newline>World''
   \<and> brochure_Website (example_env []) [] example_url
       = (Inr \<lparr>url05 = example_url, title05 = Some (py ''Example''),
                text05 = py ''Hello\<newline>World'', links05 = []\<rparr>,
          [RequestsGet example_url])"
proof -
  have h1: "network (example_env []) [] example_url = Response 200 example_doc"
    by (simp add: example_env_def)
  have h2: "soup_find (py ''body'') example_doc = Some example_body"
    by (simp add: soup_find_def find_all_def example_doc_def example_body_def py_def)
  have v: "visible_strings example_body = [py ''Hello'', py ''World'']"
    by (simp add: visible_strings_def visible_def example_body_def irrelevant_names_def
        strip_def isspace_def py_def)
  from body_text_skips_irrelevant [OF h1 h2, of example_page "[RequestsGet example_url]"]
    h1 h2 v example_Website [of "[]" "[]"] example_brochure_Website [of "[]" "[]"]
  show ?thesis by (simp add: example_body_def) (simp add: example_page_def py_def)
qed

text \<open>
  Against claim C3 as stated: the paragraph of the indented page is one text node of
  two lines; only the node is stripped, so the first line of the text ends with two
  spaces and the second starts with three. The lines of the text are not trimmed.
\<close>

theorem text_lines_not_trimmed:
  "summarizer_Website indented_env [] example_url =
     (Inr \<lparr>url04 = example_url, title04 = py ''Indented'',
            text04 = py ''Some text  \<newline>   more text''\<rparr>,
      [RequestsGet example_url])
   \<and> brochure_Website indented_env [] example_url =
       (Inr \<lparr>url05 = example_url, title05 = Some (py ''Indented''),
              text05 = py ''Some text  \<newline>   more text'', links05 = []\<rparr>,
        [RequestsGet example_url])
   \<and> lines_of (py ''Some text  \<newline>   more text'') = [py ''Some text  '', py ''   more text'']
   \<and> \<not> trimmed_lines (py ''Some text  \<newline>   more text'')"
  using indented_Website [of "[]"] indented_brochure_Website [of "[]"]
  by (simp add: trimmed_lines_def lines_of_def strip_def isspace_def py_def)

subsection \<open>C4: the links of a page\<close>

text \<open>
  Claim C4. For a page the brochure script fetched, the links are the targets of the
  anchors of the whole document that have a target which is not empty, in document
  order: as many links as such anchors, a target that occurs twice is kept twice, an
  anchor without target or with an empty one is dropped, and each target is the
  attribute as written (a relative URL stays relative). The document is any tree that
  \<^verbatim>\<open>html.parser\<close> can build.
\<close>

theorem links_are_anchor_targets:
  assumes "brochure_Website e tr url = (Inr w, tr')"
    and "network e tr url = Response status doc"
    and "html_parser_shape doc"
  shows "links05 w = map (\<lambda>l. the (get_attr l (py ''href''))) (filter has_target (find_all [py ''a''] doc))
       \<and> length (links05 w) = length (filter has_target (find_all [py ''a''] doc))"
proof -
  from brochure_Website_Inr [OF assms(1)] assms(2)
  have ok: "network e tr url = Response 200 doc" by auto
  have "collect_links (fst (projr (extract_text doc))) = collect_links doc"
  proof (cases "soup_find (py ''body'') doc")
    case None
    then show ?thesis by (simp add: extract_text_no_body)
  next
    case (Some b)
    from extract_text_body [OF this] obtain doc' where
      m: "map_first_tag (py ''body'') decompose_irrelevant doc = Some doc'"
      and x: "extract_text doc = Inr (doc', get_text (decompose_irrelevant b))" by blast
    from attrs_map_first_tag [OF assms(3) a_not_irrelevant m]
    have "collect_links doc' = collect_links doc" by (rule collect_links_attrs)
    with x show ?thesis by simp
  qed
  with brochure_Website_200 [OF ok] assms(1)
  have "links05 w = collect_links doc" by auto
  then show ?thesis by (simp add: collect_links_filter)
qed

text \<open>
  The landing page of the company site has five anchors; three have a target, two of
  them the same relative one.
\<close>

theorem links_are_anchor_targets_witness:
  "brochure_Website (acme_env reply_about) [] acme_url = (Inr acme_page, [RequestsGet acme_url])
   \<and> network (acme_env reply_about) [] acme_url = Response 200 acme_doc
   \<and> html_parser_shape acme_doc
   \<and> length (find_all [py ''a''] acme_doc) = 5
   \<and> links05 acme_page = [py ''/about'', py ''/about'', careers_url]
   \<and> length (filter has_target (find_all [py ''a''] acme_doc)) = 3"
proof -
  have h2: "network (acme_env reply_about) [] acme_url = Response 200 acme_doc"
    by (simp add: acme_env_def)
  have h3: "html_parser_shape acme_doc"
    by (simp add: acme_doc_def irrelevant_names_def py_def)
  have n: "length (find_all [py ''a''] acme_doc) = 5"
    by (simp add: find_all_def acme_doc_def py_def)
  from links_are_anchor_targets [OF _ h2 h3, of acme_page "[RequestsGet acme_url]"]
    acme_Website [of reply_about "[]"] h2 h3 n
  show ?thesis by (simp add: acme_page_def)
qed

subsection \<open>C5: the credential\<close>

text \<open>
  Claim C5, as the code has it. In both scripts a credential that is absent or empty
  ends the run with \<^verbatim>\<open>ValueError\<close> before any event, so before any network call.
  In the summarizer a credential that does not start with \<^verbatim>\<open>sk-proj-\<close>, or that
  starts with it and has whitespace around it, only prints a warning, and the run goes
  on with \<^verbatim>\<open>display_summary\<close>. In the brochure maker a credential that does not
  start with \<^verbatim>\<open>sk-proj-\<close>, or that has at most 10 characters, ends the run with
  \<^verbatim>\<open>ValueError\<close> before any event as well; one that starts with it and is longer
  is accepted, whitespace or not.
\<close>

theorem credential_check:
  "(api_key = None \<or> api_key = Some [] \<longrightarrow>
      summarizer_main e api_key = (Inl ValueError, []) \<and> brochure_main e api_key = (Inl ValueError, []))
   \<and> (k \<noteq> [] \<and> \<not> startswith k (py ''sk-proj-'') \<longrightarrow>
        summarizer_main e (Some k) =
          display_summary e [Print msg_not_project_key] (py ''https://edwarddonner.com'')
        \<and> brochure_main e (Some k) = (Inl ValueError, []))
   \<and> (startswith k (py ''sk-proj-'') \<and> strip k \<noteq> k \<longrightarrow>
        summarizer_main e (Some k) =
          display_summary e [Print msg_key_whitespace] (py ''https://edwarddonner.com''))
   \<and> (startswith k (py ''sk-proj-'') \<and> length k \<le> 10 \<longrightarrow>
        brochure_main e (Some k) = (Inl ValueError, []))
   \<and> (startswith k (py ''sk-proj-'') \<and> 10 < length k \<longrightarrow>
        brochure_check_api_key (Some k) = Inr msg_key_good)"
proof -
  have nonempty: "k \<noteq> []" if "startswith k (py ''sk-proj-'')"
    using that by (auto simp: startswith_def py_def)
  show ?thesis
    using nonempty
    by (auto simp: summarizer_main_def brochure_main_def summarizer_check_api_key_def
          brochure_check_api_key_def)
qed

text \<open>
  An absent and an empty credential, one with a wrong prefix, one with a trailing
  space and one of ten characters.
\<close>

theorem credential_check_witness:
  "summarizer_main (example_env []) None = (Inl ValueError, [])
   \<and> brochure_main (example_env []) None = (Inl ValueError, [])
   \<and> summarizer_main (example_env []) (Some []) = (Inl ValueError, [])
   \<and> brochure_main (example_env []) (Some []) = (Inl ValueError, [])
   \<and> summarizer_main (example_env []) (Some (py ''sk-test-0123456789'')) =
       display_summary (example_env []) [Print msg_not_project_key] (py ''https://edwarddonner.com'')
   \<and> brochure_main (example_env []) (Some (py ''sk-test-0123456789'')) = (Inl ValueError, [])
   \<and> summarizer_main (example_env []) (Some (py ''sk-proj-0123456789 '')) =
       display_summary (example_env []) [Print msg_key_whitespace] (py ''https://edwarddonner.com'')
   \<and> brochure_check_api_key (Some (py ''sk-proj-0123456789 '')) = Inr msg_key_good
   \<and> brochure_main (example_env []) (Some (py ''sk-proj-01'')) = (Inl ValueError, [])"
  using credential_check [of None "example_env []" "py ''sk-test-0123456789''"]
    credential_check [of "Some []" "example_env []" "py ''sk-proj-0123456789 ''"]
    credential_check [of None "example_env []" "py ''sk-proj-01''"]
  by (simp add: startswith_def strip_def isspace_def py_def)

text \<open>
  Against claim C5 as stated: the brochure maker, given a credential that is present
  but has a wrong prefix, prints no warning and does not go on; the run ends with
  the error and no event.
\<close>

theorem brochure_wrong_prefix_is_fatal:
  "brochure_main (acme_env reply_about) (Some (py ''sk-test-0123456789'')) = (Inl ValueError, [])"
  by (simp add: brochure_main_def brochure_check_api_key_def startswith_def py_def)

subsection \<open>C6: the reply of the link classification\<close>




subsection \<open>C7: a failed fetch ends the aggregation\<close>

text \<open>
  Claim C7. If any call of \<^verbatim>\<open>requests.get\<close> made during a run of
  \<^verbatim>\<open>get_all_details\<close> (the landing page, its second fetch in \<^verbatim>\<open>get_links\<close> or a
  selected page) is answered with anything but status 200, the run returns an error:
  no document, neither the landing page alone nor the pages fetched so far.
\<close>

theorem failed_fetch_aborts:
  assumes "get_all_details e tr url = (r, tr')"
    and "\<not> fetches_ok e tr (drop (length tr) tr')"
  shows "\<exists>err. r = Inl err"
proof -
  from run_ok_get_all_details [of e tr url] assms(1)
  obtain ext where "tr' = tr @ ext" "isl r \<or> fetches_ok e tr ext"
    by (auto simp: run_ok_iff)
  with assms(2) have "isl r" by auto
  then show ?thesis by (cases r) auto
qed

text \<open>
  The service selects the careers page, which is answered with status 404, and then
  the about page: the run fails with that fetch failure and the about page is never
  fetched.
\<close>

theorem failed_fetch_aborts_witness:
  "gets (snd (get_all_details (acme_env reply_careers_about) [] acme_url))
     = [acme_url, acme_url, careers_url]
   \<and> network (acme_env reply_careers_about)
        [RequestsGet acme_url, RequestsGet acme_url, ChatCreate acme_links_request,
         Print (msg_found_links (acme_env reply_careers_about)
                  (JObject [(py ''links'', JArray [careers_link, about_link])]))]
        careers_url = Response 404 []
   \<and> \<not> fetches_ok (acme_env reply_careers_about) []
         (drop (length ([] :: event list)) (snd (get_all_details (acme_env reply_careers_about) [] acme_url)))
   \<and> fst (get_all_details (acme_env reply_careers_about) [] acme_url)
       = Inl (FetchFailure careers_url 404)"
proof -
  let ?run = "get_all_details (acme_env reply_careers_about) [] acme_url"
  have n: "network (acme_env r) tr careers_url = Response 404 []" for r tr
    by (simp add: acme_defs py_def)
  have bad: "\<not> fetches_ok (acme_env reply_careers_about) [] (drop (length ([] :: event list)) (snd ?run))"
    by (simp add: acme_details_careers_about n)
  have "?run = (fst ?run, snd ?run)" by simp
  from failed_fetch_aborts [OF this bad] bad n
  show ?thesis by (simp add: acme_details_careers_about)
qed

subsection \<open>C8: the summary of the example page\<close>

text \<open>
  Claim C8, as the code has it. When the page was fetched and the service replied,
  \<^verbatim>\<open>summarize\<close> has made exactly one fetch, of the given URL, and then exactly one
  request to the service, the summary request (no request for JSON, so no link
  classification, and no further fetch), and it returns the content of the reply as it
  is.
\<close>

theorem summarize_one_fetch_one_request:
  assumes "summarizer_Website e tr url = (Inr website, tr1)"
    and "chat_service e tr1 (ChatRequest (py ''gpt-4o-mini'') (messages_for website) False)
         = ChatCompletion (reply # others)"
  shows "summarize e tr url =
           (Inr reply,
            tr @ [RequestsGet url,
                  ChatCreate (ChatRequest (py ''gpt-4o-mini'') (messages_for website) False)])"
  using assms summarizer_Website_trace [OF assms(1)]
  by (auto simp: summarize_def chat_content_def)

text \<open>
  The example page, titled \<open>Example\<close> with the text \<open>Hello\<close>, newline, \<open>World\<close>
  and no link, with a service that replies \<open>A summary.\<close>
\<close>

theorem summarize_one_fetch_one_request_witness:
  "summarizer_Website (example_env (py ''A summary.'')) [] example_url
     = (Inr example_page, [RequestsGet example_url])
   \<and> title04 example_page = py ''Example''
   \<and> text04 example_page = py ''Hello\<newline>World''
   \<and> chat_service (example_env (py ''A summary.'')) [RequestsGet example_url]
        (ChatRequest (py ''gpt-4o-mini'') (messages_for example_page) False)
       = ChatCompletion [Some (py ''A summary.'')]
   \<and> summarize (example_env (py ''A summary.'')) [] example_url
       = (Inr (Some (py ''A summary.'')),
          [RequestsGet example_url,
           ChatCreate (ChatRequest (py ''gpt-4o-mini'') (messages_for example_page) False)])"
proof -
  have w: "summarizer_Website (example_env (py ''A summary.'')) [] example_url
             = (Inr example_page, [RequestsGet example_url])"
    using example_Website [of "py ''A summary.''" "[]"] by simp
  have c: "chat_service (example_env (py ''A summary.'')) [RequestsGet example_url]
             (ChatRequest (py ''gpt-4o-mini'') (messages_for example_page) False)
           = ChatCompletion (Some (py ''A summary.'') # [])"
    by (simp add: example_env_def)
  from summarize_one_fetch_one_request [OF w c] w c
  show ?thesis by (simp add: example_page_def)
qed

text \<open>
  Against claim C8 as stated: for the same page, with a service that replies with the
  empty string, the summary returned is empty.
\<close>

theorem summary_can_be_empty:
  "summarize (example_env []) [] example_url
     = (Inr (Some []),
        [RequestsGet example_url,
         ChatCreate (ChatRequest (py ''gpt-4o-mini'') (messages_for example_page) False)])
   \<and> title04 example_page = py ''Example''
   \<and> text04 example_page = py ''Hello\<newline>World''"
  by (simp add: summarize_def example_Website chat_content_def)
     (simp add: example_env_def example_page_def)

subsection \<open>C9: a document without a body\<close>

text \<open>
  Claim C9 says that the construction of a page does not fail for a document without
  a body. A document with status 200, no body and an empty title element: the
  brochure script builds the page (no title, empty text, no links), the summarizer
  raises \<^verbatim>\<open>AttributeError\<close>, since \<^verbatim>\<open>soup.title.string\<close> is \<^verbatim>\<open>None\<close>.
\<close>

theorem empty_title_breaks_summarizer:
  "network empty_title_env [] example_url = Response 200 empty_title_doc
   \<and> soup_find (py ''body'') empty_title_doc = None
   \<and> summarizer_Website empty_title_env [] example_url
       = (Inl AttributeError, [RequestsGet example_url])
   \<and> brochure_Website empty_title_env [] example_url
       = (Inr \<lparr>url05 = example_url, title05 = None, text05 = [], links05 = []\<rparr>,
          [RequestsGet example_url])"
  by (simp add: page_eval empty_title_env_def empty_title_doc_def)

subsection \<open>C10: the number of fetches\<close>

text \<open>
  Claim C10, as the code has it. When a run of \<^verbatim>\<open>get_all_details\<close> returns a
  document, the reply parsed by \<^verbatim>\<open>get_links\<close> has a \<^verbatim>\<open>links\<close> entry with some
  \<open>n\<close> items, and the run has made exactly \<open>2 + n\<close> calls of \<^verbatim>\<open>requests.get\<close>:
  the given URL twice, then the URL of each item in order.
\<close>

theorem requests_of_successful_run:
  assumes "get_all_details e tr url = (Inr doc, tr')"
  shows "\<exists>links selected items.
           fst (get_links e (tr @ [RequestsGet url]) url) = Inr links
         \<and> py_getitem links (py ''links'') = Inr selected
         \<and> py_iter selected = Inr items
         \<and> gets (drop (length tr) tr') = url # url # map (link_url e) items
         \<and> length (gets (drop (length tr) tr')) = 2 + length items"
proof -
  obtain r tr1 where w: "brochure_Website e tr url = (r, tr1)" by (cases "brochure_Website e tr url")
  then have tr1: "tr1 = tr @ [RequestsGet url]" by (rule brochure_Website_trace)
  from assms w obtain landing where r: "r = Inr landing"
    by (cases r) (auto simp: get_all_details_def)
  obtain l tr2 where g: "get_links e tr1 url = (l, tr2)" by (cases "get_links e tr1 url")
  from assms w r g obtain links where l: "l = Inr links"
    by (cases l) (auto simp: get_all_details_def)
  from get_links_trace g l obtain req where tr2: "tr2 = tr1 @ [RequestsGet url, ChatCreate req]"
    by blast
  from assms w r g l obtain selected where sel: "py_getitem links (py ''links'') = Inr selected"
    by (cases "py_getitem links (py ''links'')") (auto simp: get_all_details_def)
  from assms w r g l sel obtain items where items: "py_iter selected = Inr items"
    by (cases "py_iter selected") (auto simp: get_all_details_def)
  from assms w r g l sel items
  have "add_link_pages e (tr2 @ [Print (msg_found_links e links)])
          (py ''Landing page:\<newline>'' @ get_contents landing) items = (Inr doc, tr')"
    by (simp add: get_all_details_def)
  from add_link_pages_gets [OF this]
  obtain ext where "tr' = (tr2 @ [Print (msg_found_links e links)]) @ ext"
    "gets ext = map (link_url e) items" by blast
  with tr1 tr2 have "gets (drop (length tr) tr') = url # url # map (link_url e) items"
    by (simp add: gets_append)
  with g l sel items tr1 show ?thesis by auto
qed

text \<open>
  The service selects the about page: three fetches, the landing page twice and the
  about page.
\<close>

theorem requests_of_successful_run_witness:
  "get_all_details (acme_env reply_about) [] acme_url
     = (Inr (py ''Landing page:\<newline>'' @ get_contents acme_page
           @ py ''\<newline>\<newline>'' @ py ''about page'' @ py ''\<newline>'' @ get_contents about_page),
        [RequestsGet acme_url, RequestsGet acme_url, ChatCreate acme_links_request,
         Print (msg_found_links (acme_env reply_about) (JObject [(py ''links'', JArray [about_link])])),
         RequestsGet about_url])
   \<and> fst (get_links (acme_env reply_about) [RequestsGet acme_url] acme_url)
       = Inr (JObject [(py ''links'', JArray [about_link])])
   \<and> gets (drop (length ([] :: event list)) (snd (get_all_details (acme_env reply_about) [] acme_url)))
       = [acme_url, acme_url, about_url]"
  using requests_of_successful_run [OF acme_details_about]
  by (simp add: acme_details_about acme_get_links parse_reply_about)

text \<open>
  Against claim C10 as stated: the service selects two pages, the first is answered
  with status 404; the run makes three fetches, not four.
\<close>

theorem aborted_run_issues_fewer_requests:
  "fst (get_links (acme_env reply_careers_about) [RequestsGet acme_url] acme_url)
     = Inr (JObject [(py ''links'', JArray [careers_link, about_link])])
   \<and> fst (get_all_details (acme_env reply_careers_about) [] acme_url)
       = Inl (FetchFailure careers_url 404)
   \<and> gets (snd (get_all_details (acme_env reply_careers_about) [] acme_url))
       = [acme_url, acme_url, careers_url]
   \<and> length (gets (snd (get_all_details (acme_env reply_careers_about) [] acme_url)))
       \<noteq> 2 + length [careers_link, about_link]"
  by (simp add: acme_details_careers_about acme_get_links parse_reply_careers_about)

end
